theory Spec2Isabelle
  imports Complex_Main "HOL-Library.AList" "HOL-Library.Sublist"
begin

section \<open>Module-level constants of postprocess.py\<close>

definition atm_always_include :: "string list" where
  "atm_always_include = [''LANDFRAC'', ''GRIDAREA'', ''gw'', ''date'', ''time_bnds'']"

definition lnd_always_include :: "string list" where
  "lnd_always_include = [''area'', ''landfrac'', ''landmask'', ''pftmask'', ''PCT_LANDUNIT'']"

definition pressure_variables :: "string list" where
  "pressure_variables = [''P0'', ''hyam'', ''hybm'', ''PS'', ''hyai'', ''hybi'', ''ilev'']"

definition Ghan_vars :: "string list" where
  "Ghan_vars = [''SWDIR'', ''LWDIR'', ''DIR'', ''SWCF'', ''LWCF'', ''NCFT'', ''SW_rest'', ''LW_rest'']"

section \<open>Exceptions\<close>

text \<open>
  Every exception the functions can raise is a value. \<open>ValueError\<close>, \<open>KeyError\<close>,
  \<open>AttributeError\<close> and \<open>UnboundLocalError\<close> carry the message or the name they are
  raised with. \<open>DtAccessorError\<close> is what the dataset library raises when \<open>.dt\<close> is
  applied to values that are not date-like.
\<close>

datatype error =
    ValueError string
  | KeyError string
  | AttributeError string
  | UnboundLocalError string
  | TypeError
  | IndexError
  | DtAccessorError

section \<open>Strings\<close>

text \<open>\<open>s.find(sub)\<close>: the lowest index at which \<open>sub\<close> occurs in \<open>s\<close>, or \<open>-1\<close>.\<close>

fun str_find :: "string \<Rightarrow> string \<Rightarrow> int" where
  "str_find [] sub = (if sub = [] then 0 else - 1)"
| "str_find (c # cs) sub =
     (if prefix sub (c # cs) then 0
      else (let r = str_find cs sub in if r < 0 then - 1 else r + 1))"

section \<open>The variable catalog\<close>

text \<open>
  \<open>variables_by_component\<close> returns a dict; its insertion order is the order of the
  association list. For a component other than \<open>atm\<close> and \<open>lnd\<close> the local
  \<open>variables\<close> is never bound and the \<open>return\<close> raises.
\<close>

definition variables_by_component :: "string \<Rightarrow> bool \<Rightarrow> error + (string \<times> string list) list" where
  "variables_by_component component bvoc =
     (if component = ''atm'' then
        Inr [(''BVOC'', [''SFisoprene'', ''SFmonoterp'']),
             (''SOA'', [''N_AER'', ''DOD550'', ''SOA_A1'', ''SOA_NA'', ''cb_SOA_A1'', ''cb_SOA_NA'',
                        ''cb_SOA_A1_OCW'', ''cb_SOA_NA_OCW'']),
             (''CLOUDPROP'', [''ACTNL'', ''ACTREL'', ''CDNUMC'', ''CLDHGH'', ''CLDLOW'', ''CLDMED'',
                              ''CLDTOT'', ''CLDLIQ'', ''CLOUD'', ''CLOUDCOVER_CLUBB'', ''FCTL'',
                              ''NUMLIQ'', ''TGCLDLWP'']),
             (''RADIATIVE'', [''FSDS'', ''FSNS'', ''FLNT'', ''FSNT'', ''FLNT_DRF'', ''FLNTCDRF'',
                              ''FSNTCDRF'', ''FSNT_DRF'', ''LWCF'', ''SWCF'']),
             (''TURBFLUXES'', [''LHFLX'', ''SHFLX''])]
      else if component = ''lnd'' then
        (let lnd_vars = [''PCT_NAT_PFT'', ''TLAI''];
             biogeochem_vars = [''GPP'', ''NPP'', ''NEE'', ''NEP'', ''STORVEGN'', ''TOTPFTN'',
                                ''TOTVEGN'', ''TOTCOLC'', ''TOTECOSYSC'', ''TOTPFTC'', ''TOTVEGC'',
                                ''STORVEGC''];
             evap_vars = [''QFLX_EVAP_TOT'', ''FCEV'', ''FCTR'', ''FGEV'', ''QSOIL'', ''QVEGE'',
                          ''QVEGT'']
         in if bvoc then
              Inr [(''LAND'', [''MEG_isoprene'', ''MEG_limonene'', ''MEG_myrcene'',
                               ''MEG_ocimene_t_b'', ''MEG_pinene_a'', ''MEG_pinene_b'',
                               ''MEG_sabinene''] @ lnd_vars),
                   (''BIOGEOCHEM'', biogeochem_vars),
                   (''ET'', evap_vars)]
            else
              Inr [(''LAND'', lnd_vars),
                   (''BIOGEOCHEM'', biogeochem_vars),
                   (''ET'', evap_vars)])
      else Inl (UnboundLocalError ''variables''))"

text \<open>
  The variable selection of \<open>create_dataset\<close> (the \<open>else\<close> branch of \<open>full_dset\<close>):
  the always-included names of the component, the pressure variables on request, and the
  flattened catalog. \<open>casename.find('OFF') > 0.\<close> compares the index with the float zero.
\<close>

definition create_dataset_variables :: "string \<Rightarrow> string \<Rightarrow> bool \<Rightarrow> error + string list" where
  "create_dataset_variables casename component pressure_vars =
     (let bvoc = True in
      case (if component = ''atm'' then
              Inr (if pressure_vars then atm_always_include @ pressure_variables
                   else atm_always_include, bvoc)
            else if component = ''lnd'' then
              Inr (lnd_always_include,
                   if 0 < real_of_int (str_find casename ''OFF'') then False else bvoc)
            else Inl (UnboundLocalError ''variables'')) of
        Inl e \<Rightarrow> Inl e
      | Inr (variables, bvoc) \<Rightarrow>
          (case variables_by_component component bvoc of
             Inl e \<Rightarrow> Inl e
           | Inr cat \<Rightarrow> Inr (variables @ concat (map snd cat))))"

section \<open>Time values\<close>

text \<open>
  A time value is either a \<open>numpy.datetime64\<close> (proleptic Gregorian calendar) or a
  \<open>cftime\<close> date such as \<open>DatetimeNoLeap\<close>; both are kept as year, month, day and the
  nanosecond of the day. \<open>.dt.year\<close> and \<open>.dt.month\<close> read the first two fields.
  Adding \<open>numpy.timedelta64(n, 'D')\<close> to a \<open>datetime64\<close> advances the Gregorian date by
  \<open>n\<close> days; the 64-bit nanosecond count behind a \<open>datetime64\<close> is not modelled.
\<close>

datatype timeval =
    Datetime64 int nat nat nat
  | DatetimeNoLeap int nat nat nat

fun dt_year :: "timeval \<Rightarrow> int" where
  "dt_year (Datetime64 y m d ns) = y"
| "dt_year (DatetimeNoLeap y m d ns) = y"

fun dt_month :: "timeval \<Rightarrow> nat" where
  "dt_month (Datetime64 y m d ns) = m"
| "dt_month (DatetimeNoLeap y m d ns) = m"

definition is_leap_year :: "int \<Rightarrow> bool" where
  "is_leap_year y \<longleftrightarrow> y mod 4 = 0 \<and> (y mod 100 \<noteq> 0 \<or> y mod 400 = 0)"

definition days_in_month :: "int \<Rightarrow> nat \<Rightarrow> nat" where
  "days_in_month y m =
     (if m = 2 then (if is_leap_year y then 29 else 28)
      else if m = 4 \<or> m = 6 \<or> m = 9 \<or> m = 11 then 30
      else 31)"

fun next_day :: "int \<times> nat \<times> nat \<Rightarrow> int \<times> nat \<times> nat" where
  "next_day (y, m, d) =
     (if d < days_in_month y m then (y, m, d + 1)
      else if m < 12 then (y, m + 1, 1)
      else (y + 1, 1, 1))"

definition add_days :: "nat \<Rightarrow> int \<times> nat \<times> nat \<Rightarrow> int \<times> nat \<times> nat" where
  "add_days n = next_day ^^ n"

section \<open>Arrays, variables, datasets\<close>

text \<open>
  An array is nested along its axes; a cell holds a number (idealised as a real) or a
  time value. A variable is an object with dimension names, data and an attribute dict
  (an association list in insertion order). Variable objects live in a heap and a dataset
  maps names to their addresses, in insertion order, with the set of names that are
  coordinates: so the difference between mutating an object and building a new one is
  visible in the model.
\<close>

datatype cell = Num real | Stamp timeval

datatype ndarray = Cell cell | Axis "ndarray list"

record variable =
  dims :: "string list"
  data :: ndarray
  attrs :: "(string \<times> string) list"

type_synonym heap = "variable list"

record dataset =
  variables :: "(string \<times> nat) list"
  coord_names :: "string list"

text \<open>\<open>list(ds.data_vars)\<close> and \<open>list(ds.keys())\<close>: the names that are not coordinates.\<close>

definition data_vars :: "dataset \<Rightarrow> string list" where
  "data_vars ds = filter (\<lambda>n. n \<notin> set (coord_names ds)) (map fst (variables ds))"

text \<open>The content of a dataset in a heap: each name with the value of its variable object.\<close>

definition contents :: "heap \<Rightarrow> dataset \<Rightarrow> (string \<times> variable) list" where
  "contents h ds = map (\<lambda>(n, a). (n, h ! a)) (variables ds)"

text \<open>A dataset is well formed in a heap: its names are distinct and its objects exist.\<close>

definition wf_dataset :: "heap \<Rightarrow> dataset \<Rightarrow> bool" where
  "wf_dataset h ds \<longleftrightarrow>
     distinct (map fst (variables ds)) \<and> list_all (\<lambda>(n, a). a < length h) (variables ds)"

text \<open>Building a dataset of new variable objects, at the end of the heap.\<close>

definition alloc :: "(string \<times> variable) list \<Rightarrow> string list \<Rightarrow> heap \<Rightarrow> dataset \<times> heap" where
  "alloc vs cn h =
     (\<lparr>variables = zip (map fst vs) [length h ..< length h + length vs], coord_names = cn\<rparr>,
      h @ map snd vs)"

text \<open>\<open>ds.copy(deep=True)\<close>: new objects with the same content.\<close>

definition copy_deep :: "dataset \<Rightarrow> heap \<Rightarrow> dataset \<times> heap" where
  "copy_deep ds h = alloc (contents h ds) (coord_names ds) h"

text \<open>\<open>ds[name]\<close> and \<open>ds.name\<close>: the variable object of that name.\<close>

definition getitem :: "dataset \<Rightarrow> string \<Rightarrow> error + nat" where
  "getitem ds n = (case map_of (variables ds) n of None \<Rightarrow> Inl (KeyError n) | Some a \<Rightarrow> Inr a)"

definition getattr :: "dataset \<Rightarrow> string \<Rightarrow> error + nat" where
  "getattr ds n =
     (case map_of (variables ds) n of None \<Rightarrow> Inl (AttributeError n) | Some a \<Rightarrow> Inr a)"

section \<open>Statements: state, exceptions, sequencing\<close>

definition seq ::
  "('s \<Rightarrow> (error + unit) \<times> 's) \<Rightarrow> ('s \<Rightarrow> (error + unit) \<times> 's) \<Rightarrow> 's \<Rightarrow> (error + unit) \<times> 's" where
  "seq f g s = (case f s of (Inl e, s') \<Rightarrow> (Inl e, s') | (Inr u, s') \<Rightarrow> g s')"

definition skip :: "'s \<Rightarrow> (error + unit) \<times> 's" where
  "skip s = (Inr (), s)"

fun for_each :: "('a \<Rightarrow> 's \<Rightarrow> (error + unit) \<times> 's) \<Rightarrow> 'a list \<Rightarrow> 's \<Rightarrow> (error + unit) \<times> 's" where
  "for_each body [] s = (Inr (), s)"
| "for_each body (x # xs) s =
     (case body x s of (Inl e, s') \<Rightarrow> (Inl e, s') | (Inr u, s') \<Rightarrow> for_each body xs s')"

text \<open>\<open>ds[var].values = f(ds[var].values)\<close> and \<open>ds[var].attrs[k] = v\<close> mutate the object.\<close>

definition assign_values ::
  "dataset \<Rightarrow> string \<Rightarrow> (ndarray \<Rightarrow> error + ndarray) \<Rightarrow> heap \<Rightarrow> (error + unit) \<times> heap" where
  "assign_values ds var f h =
     (case getitem ds var of
        Inl e \<Rightarrow> (Inl e, h)
      | Inr a \<Rightarrow>
          (case f (data (h ! a)) of
             Inl e \<Rightarrow> (Inl e, h)
           | Inr d \<Rightarrow> (Inr (), h[a := (h ! a)\<lparr>data := d\<rparr>])))"

definition assign_attr ::
  "dataset \<Rightarrow> string \<Rightarrow> string \<Rightarrow> string \<Rightarrow> heap \<Rightarrow> (error + unit) \<times> heap" where
  "assign_attr ds var k v h =
     (case getitem ds var of
        Inl e \<Rightarrow> (Inl e, h)
      | Inr a \<Rightarrow> (Inr (), h[a := (h ! a)\<lparr>attrs := AList.update k v (attrs (h ! a))\<rparr>]))"

section \<open>Array arithmetic\<close>

text \<open>
  Multiplying an array by a float is elementwise; a time value cannot be multiplied
  (\<open>None\<close>, raised as \<open>TypeError\<close>).
\<close>

fun nd_mul :: "ndarray \<Rightarrow> real \<Rightarrow> ndarray option" where
  "nd_mul (Cell (Num x)) c = Some (Cell (Num (x * c)))"
| "nd_mul (Cell (Stamp t)) c = None"
| "nd_mul (Axis xs) c = map_option Axis (those (map (\<lambda>x. nd_mul x c) xs))"

definition type_checked :: "'a option \<Rightarrow> error + 'a" where
  "type_checked r = (case r of None \<Rightarrow> Inl TypeError | Some x \<Rightarrow> Inr x)"

definition times :: "real \<Rightarrow> ndarray \<Rightarrow> error + ndarray" where
  "times c d = type_checked (nd_mul d c)"

definition and_then :: "error + 'a \<Rightarrow> ('a \<Rightarrow> error + 'b) \<Rightarrow> error + 'b" where
  "and_then r f = (case r of Inl e \<Rightarrow> Inl e | Inr x \<Rightarrow> f x)"

section \<open>fix\_units\<close>




section \<open>fix\_names\<close>

text \<open>
  \<open>ds_[var].rename('LWP')\<close> builds a renamed copy of the data array and returns it;
  the statement drops the result.
\<close>

definition dataarray_rename :: "string \<times> variable \<Rightarrow> string \<Rightarrow> string \<times> variable" where
  "dataarray_rename da new_name = (new_name, snd da)"

definition rename_discarded :: "dataset \<Rightarrow> string \<Rightarrow> string \<Rightarrow> heap \<Rightarrow> (error + unit) \<times> heap" where
  "rename_discarded ds var new_name h =
     (case getitem ds var of
        Inl e \<Rightarrow> (Inl e, h)
      | Inr a \<Rightarrow> (let renamed = dataarray_rename (var, h ! a) new_name in (Inr (), h)))"

definition fix_names_body :: "dataset \<Rightarrow> string \<Rightarrow> heap \<Rightarrow> (error + unit) \<times> heap" where
  "fix_names_body ds' var =
     (if var = ''SOA_A1'' then
        assign_attr ds' var ''long_name''
          ''SOA_A1 concentration - SOA condensate on existing particles from SOAGSV (gas)''
      else if var = ''SOA_NA'' then
        assign_attr ds' var ''long_name''
          ''SOA_NA concentration - SOA formed by co-nucleation with SO4''
      else if var = ''cb_SOA_A1'' then
        assign_attr ds' var ''long_name''
          ''SOA_A1 burden column - SOA condensate on existing particles from SOAGSV (gas)''
      else if var = ''cb_SOA_NA'' then
        assign_attr ds' var ''long_name''
          ''SOA_NA burden column - SOA formed by co-nucleation with SO4''
      else if var = ''cb_SOA_A1_OCW'' then
        assign_attr ds' var ''long_name''
          ''SOA_A1 burden column in cloud water - SOA condensate on existing particles from SOAGSV (gas)''
      else if var = ''cb_SOA_NA_OCW'' then
        assign_attr ds' var ''long_name''
          ''SOA_NA burden column in cloud water - SOA formed by co-nucleation with SO4''
      else if var = ''TGCLDLWP'' then
        seq (rename_discarded ds' var ''LWP'')
            (assign_attr ds' var ''CLM5_name'' ''TGCLDLWP'')
      else if var = ''QFLX_EVAP_TOT'' then
        seq (rename_discarded ds' var ''ET'')
            (assign_attr ds' var ''CLM5_name'' ''QFLX_EVAP_TOT'')
      else skip)"

definition fix_names :: "dataset \<Rightarrow> heap \<Rightarrow> (error + dataset) \<times> heap" where
  "fix_names ds h =
     (let (ds', h1) = copy_deep ds h in
      case for_each (fix_names_body ds') (data_vars ds') h1 of
        (Inl e, h2) \<Rightarrow> (Inl e, h2)
      | (Inr u, h2) \<Rightarrow> (Inr ds', h2))"







text \<open>
  The names \<open>fix_names\<close> annotates, as a table, and the variable expected for a name:
  only \<open>long_name\<close> or \<open>CLM5_name\<close> is set.
\<close>

definition long_name_table :: "(string \<times> string) list" where
  "long_name_table =
     [(''SOA_A1'', ''SOA_A1 concentration - SOA condensate on existing particles from SOAGSV (gas)''),
      (''SOA_NA'', ''SOA_NA concentration - SOA formed by co-nucleation with SO4''),
      (''cb_SOA_A1'', ''SOA_A1 burden column - SOA condensate on existing particles from SOAGSV (gas)''),
      (''cb_SOA_NA'', ''SOA_NA burden column - SOA formed by co-nucleation with SO4''),
      (''cb_SOA_A1_OCW'',
       ''SOA_A1 burden column in cloud water - SOA condensate on existing particles from SOAGSV (gas)''),
      (''cb_SOA_NA_OCW'',
       ''SOA_NA burden column in cloud water - SOA formed by co-nucleation with SO4'')]"

definition annotated_names :: "string \<Rightarrow> variable \<Rightarrow> variable" where
  "annotated_names n v =
     (case map_of long_name_table n of
        Some s \<Rightarrow> v\<lparr>attrs := AList.update ''long_name'' s (attrs v)\<rparr>
      | None \<Rightarrow>
          if n = ''TGCLDLWP'' \<or> n = ''QFLX_EVAP_TOT''
          then v\<lparr>attrs := AList.update ''CLM5_name'' n (attrs v)\<rparr>
          else v)"

section \<open>aerosol\_cloud\_forcing\_scomposition\_Ghan\<close>

text \<open>
  Python values, as far as the membership test of the guard needs them: a string or a
  list. \<open>x in xs\<close> holds when an element of \<open>xs\<close> equals \<open>x\<close>; a list never equals a
  string.
\<close>

datatype pyval = PyStr string | PyList "pyval list"

definition py_in :: "pyval \<Rightarrow> pyval list \<Rightarrow> bool" where
  "py_in x xs \<longleftrightarrow> x \<in> set xs"

text \<open>
  Arithmetic between two data arrays is modelled for operands of the same shape; the
  result carries no attributes. A time value, or operands of different shapes, are
  outside this arithmetic (\<open>None\<close>, raised as \<open>TypeError\<close>).
\<close>

function nd_zip :: "(real \<Rightarrow> real \<Rightarrow> real) \<Rightarrow> ndarray \<Rightarrow> ndarray \<Rightarrow> ndarray option" where
  "nd_zip f (Cell (Num x)) (Cell (Num y)) = Some (Cell (Num (f x y)))"
| "nd_zip f (Cell (Stamp t)) b = None"
| "nd_zip f (Cell (Num x)) (Cell (Stamp t)) = None"
| "nd_zip f (Cell (Num x)) (Axis ys) = None"
| "nd_zip f (Axis xs) (Cell c) = None"
| "nd_zip f (Axis xs) (Axis ys) =
     (if length xs = length ys
      then map_option Axis (those (map (\<lambda>(x, y). nd_zip f x y) (zip xs ys)))
      else None)"
  by pat_completeness auto
termination
  by (relation "measure (\<lambda>(f, a, b). size a)")
     (auto dest!: set_zip_leftD simp: less_Suc_eq_le size_list_estimation')

definition da_binary :: "(real \<Rightarrow> real \<Rightarrow> real) \<Rightarrow> variable \<Rightarrow> variable \<Rightarrow> error + variable" where
  "da_binary f x y =
     (if dims x = dims y
      then and_then (type_checked (nd_zip f (data x) (data y)))
             (\<lambda>d. Inr \<lparr>dims = dims x, data = d, attrs = []\<rparr>)
      else Inl TypeError)"

definition da_neg :: "variable \<Rightarrow> error + variable" where
  "da_neg x = and_then (times (- 1) (data x)) (\<lambda>d. Inr (x\<lparr>data := d\<rparr>))"

definition getvar :: "dataset \<times> heap \<Rightarrow> string \<Rightarrow> error + variable" where
  "getvar s n = (case getitem (fst s) n of Inl e \<Rightarrow> Inl e | Inr a \<Rightarrow> Inr (snd s ! a))"

definition attr_lookup :: "string \<Rightarrow> variable \<Rightarrow> error + string" where
  "attr_lookup k v = (case map_of (attrs v) k of None \<Rightarrow> Inl (KeyError k) | Some x \<Rightarrow> Inr x)"

text \<open>\<open>ds[name] = value\<close> stores a new variable object under the name.\<close>

definition ds_setitem ::
  "string \<Rightarrow> variable \<Rightarrow> dataset \<times> heap \<Rightarrow> (error + unit) \<times> (dataset \<times> heap)" where
  "ds_setitem n v s =
     (case s of (ds, h) \<Rightarrow>
        (Inr (), (ds\<lparr>variables := AList.update n (length h) (variables ds)\<rparr>, h @ [v])))"

definition assign_expr ::
  "string \<Rightarrow> (dataset \<times> heap \<Rightarrow> error + variable) \<Rightarrow> dataset \<times> heap
     \<Rightarrow> (error + unit) \<times> (dataset \<times> heap)" where
  "assign_expr n e s = (case e s of Inl er \<Rightarrow> (Inl er, s) | Inr v \<Rightarrow> ds_setitem n v s)"

definition on_heap ::
  "(dataset \<Rightarrow> heap \<Rightarrow> (error + unit) \<times> heap) \<Rightarrow> dataset \<times> heap
     \<Rightarrow> (error + unit) \<times> (dataset \<times> heap)" where
  "on_heap f s = (case s of (ds, h) \<Rightarrow> (case f ds h of (r, h') \<Rightarrow> (r, (ds, h'))))"

text \<open>\<open>ds[var].attrs[k] = ds[src].attrs[k]\<close>: the right-hand side is evaluated first.\<close>

definition copy_attr ::
  "string \<Rightarrow> string \<Rightarrow> string \<Rightarrow> dataset \<times> heap \<Rightarrow> (error + unit) \<times> (dataset \<times> heap)" where
  "copy_attr var k src s =
     (case and_then (getvar s src) (attr_lookup k) of
        Inl e \<Rightarrow> (Inl e, s)
      | Inr u \<Rightarrow> on_heap (\<lambda>ds. assign_attr ds var k u) s)"

definition set_long_name ::
  "string \<Rightarrow> string \<Rightarrow> dataset \<times> heap \<Rightarrow> (error + unit) \<times> (dataset \<times> heap)" where
  "set_long_name var txt = on_heap (\<lambda>ds. assign_attr ds var ''long_name'' txt)"

definition when_eq :: "bool \<Rightarrow> ('s \<Rightarrow> (error + unit) \<times> 's) \<Rightarrow> 's \<Rightarrow> (error + unit) \<times> 's" where
  "when_eq b f = (if b then f else skip)"

definition Ghans_scomposition :: string where
  "Ghans_scomposition = '' - Ghan'' @ [CHR 0x27] @ ''s scomposition''"

definition minus_of ::
  "string \<Rightarrow> string \<Rightarrow> dataset \<times> heap \<Rightarrow> error + variable" where
  "minus_of a b s = and_then (getvar s a) (\<lambda>x. and_then (getvar s b) (\<lambda>y. da_binary (-) x y))"

definition ghan_derive :: "string \<Rightarrow> dataset \<times> heap \<Rightarrow> (error + unit) \<times> (dataset \<times> heap)" where
  "ghan_derive var =
     seq (when_eq (''SWDIR'' = var)
            (seq (assign_expr var (minus_of ''FSNT'' ''FSNT_DRF''))
            (seq (copy_attr var ''units'' ''FSNT_DRF'')
                 (set_long_name var
                    (''Shortwave aerosol direct radiative forcing'' @ Ghans_scomposition)))))
    (seq (when_eq (''LWDIR'' = var)
            (seq (assign_expr var (\<lambda>s. and_then (minus_of ''FLNT'' ''FLNT_DRF'' s) da_neg))
            (seq (copy_attr var ''units'' ''FLNT_DRF'')
                 (set_long_name var
                    (''Longwave aerosol direct radiative forcing'' @ Ghans_scomposition)))))
    (seq (when_eq (''DIR'' = var)
            (seq (assign_expr var
                    (\<lambda>s. and_then (getvar s ''LWDIR'')
                            (\<lambda>x. and_then (getvar s ''SWDIR'') (\<lambda>y. da_binary (+) x y))))
            (seq (copy_attr var ''units'' ''LWDIR'')
                 (set_long_name var
                    (''Net aerosol direct radiative forcing'' @ Ghans_scomposition)))))
    (seq (when_eq (''SWCF'' = var)
            (seq (assign_expr var (minus_of ''FSNT_DRF'' ''FSNTCDRF''))
            (seq (copy_attr var ''units'' ''FSNT_DRF'')
                 (set_long_name var
                    (''Shortwave cloud radiative forcing'' @ Ghans_scomposition)))))
    (seq (when_eq (''LWCF'' = var)
            (seq (assign_expr var (\<lambda>s. and_then (minus_of ''FLNT_DRF'' ''FLNTCDRF'' s) da_neg))
            (seq (copy_attr var ''units'' ''FLNT_DRF'')
                 (set_long_name var
                    (''Longwave cloud radiative forcing'' @ Ghans_scomposition)))))
    (seq (when_eq (''NCFT'' = var)
            (seq (assign_expr var
                    (\<lambda>s. and_then (minus_of ''FSNT_DRF'' ''FSNTCDRF'' s)
                            (\<lambda>x. and_then (minus_of ''FLNT_DRF'' ''FLNTCDRF'' s)
                                    (\<lambda>y. da_binary (-) x y))))
            (seq (copy_attr var ''units'' ''FLNT_DRF'')
                 (set_long_name var
                    (''Net cloud radiative forcing'' @ Ghans_scomposition)))))
    (seq (when_eq (''SW_rest'' = var)
            (seq (assign_expr var (\<lambda>s. getvar s ''FSNTCDRF''))
                 (set_long_name var
                    (''Shortwave surface albedo radiative forcing'' @ Ghans_scomposition))))
         (when_eq (''LW_rest'' = var)
            (seq (assign_expr var (\<lambda>s. getvar s ''FLNTCDRF''))
                 (set_long_name var
                    (''Clear sky total column longwave flux'' @ Ghans_scomposition))))))))))"

definition ghan_annotate :: "dataset \<Rightarrow> string \<Rightarrow> heap \<Rightarrow> (error + unit) \<times> heap" where
  "ghan_annotate ds' var =
     (if var = ''FSNT'' then
        seq (assign_attr ds' var ''Ghan_name'' ''SWTOT'')
            (assign_attr ds' var ''Ghan_long_name'' ''Shortwave total forcing at TOA'')
      else if var = ''FLNT'' then
        seq (assign_attr ds' var ''Ghan_name'' ''LWTOT'')
            (assign_attr ds' var ''Ghan_long_name'' ''Longwave total forcing at TOA'')
      else if var = ''FSNT_DRF'' then
        seq (assign_attr ds' var ''Ghan_name'' ''SW_clean'')
            (assign_attr ds' var ''Ghan_long_name''
               ''Shortwave without direct aerosol forcing (scattering, absorbing)'')
      else if var = ''FSNTCDRF'' then
        seq (assign_attr ds' var ''Ghan_name'' ''SW_clean_clear'')
            (assign_attr ds' var ''Ghan_long_name''
               ''Shortwave without direct aerosol and cloud forcing'')
      else if var = ''FLNT_DRF'' then
        seq (assign_attr ds' var ''Ghan_name'' ''LW_clean'')
            (assign_attr ds' var ''Ghan_long_name''
               ''Longwave without direct aerosol forcing (scattering, absorbing)'')
      else if var = ''FLNTCDRF'' then
        seq (assign_attr ds' var ''Ghan_name'' ''LW_clean_clear'')
            (assign_attr ds' var ''Ghan_long_name''
               ''Longwave without direct aerosol and cloud forcing'')
      else skip)"

text \<open>
  The guard is the source's: the list of the six names is looked for as one element of
  \<open>list(ds.data_vars)\<close>.
\<close>

definition aerosol_cloud_forcing_scomposition_Ghan ::
  "dataset \<Rightarrow> heap \<Rightarrow> (error + dataset) \<times> heap" where
  "aerosol_cloud_forcing_scomposition_Ghan ds h =
     (let (ds', h1) = copy_deep ds h in
      if py_in (PyList (map PyStr [''FLNT'', ''FSNT'', ''FLNT_DRF'', ''FLNTCDRF'', ''FSNTCDRF'',
                                   ''FSNT_DRF'']))
               (map PyStr (data_vars ds))
      then
        (case for_each ghan_derive Ghan_vars (ds', h1) of
           (Inl e, (d, h2)) \<Rightarrow> (Inl e, h2)
         | (Inr u, (d, h2)) \<Rightarrow>
             (case for_each (ghan_annotate d) (data_vars d) h2 of
                (Inl e, h3) \<Rightarrow> (Inl e, h3)
              | (Inr u, h3) \<Rightarrow> (Inr d, h3)))
      else (Inr ds', h1))"

section \<open>The derivation loop of the Ghan decomposition, read through names\<close>

text \<open>
  A constant field of a given shape; a dataset whose objects are not shared between names;
  the dataset read as a map from names to variable values; a statement that runs without
  an exception and leaves a given map; and the two properties the decomposition is stated
  with: a name holds a constant field, a name carries a \<open>units\<close> attribute.
\<close>

fun nd_const :: "real \<Rightarrow> ndarray \<Rightarrow> ndarray" where
  "nd_const x (Cell c) = Cell (Num x)"
| "nd_const x (Axis xs) = Axis (map (nd_const x) xs)"




definition field :: "string list \<Rightarrow> ndarray \<Rightarrow> real \<Rightarrow> (string \<times> string) list \<Rightarrow> variable" where
  "field dm sk x ats = \<lparr>dims = dm, data = nd_const x sk, attrs = ats\<rparr>"




section \<open>Operations of the dataset library that build a new dataset\<close>

text \<open>
  Each of these returns a dataset of new variable objects. Sizes along a dimension are
  taken to agree between the variables of a dataset, as in every dataset the library
  builds; names of the form \<open>a.b\<close> (virtual variables) are not modelled.
\<close>

definition quote :: string where
  "quote = [CHR 0x27]"

definition rename_vars :: "dataset \<Rightarrow> string \<Rightarrow> string \<Rightarrow> heap \<Rightarrow> (error + dataset) \<times> heap" where
  "rename_vars ds old new h =
     (if old \<notin> set (map fst (variables ds)) then
        (Inl (ValueError (''cannot rename '' @ old @ '' because it is not a variable or coordinate in this dataset'')), h)
      else if new \<in> set (map fst (variables ds)) then
        (Inl (ValueError (''the new name '' @ new @ '' conflicts'')), h)
      else
        (case alloc (map (\<lambda>(n, v). (if n = old then new else n, v)) (contents h ds))
                    (map (\<lambda>n. if n = old then new else n) (coord_names ds)) h of
           (d, h') \<Rightarrow> (Inr d, h')))"

definition all_dims :: "heap \<Rightarrow> dataset \<Rightarrow> string list" where
  "all_dims h ds = concat (map (\<lambda>(n, v). dims v) (contents h ds))"

definition rename_dims :: "dataset \<Rightarrow> string \<Rightarrow> string \<Rightarrow> heap \<Rightarrow> (error + dataset) \<times> heap" where
  "rename_dims ds old new h =
     (if old \<notin> set (all_dims h ds) then
        (Inl (ValueError (''cannot rename '' @ old @ '' because it is not found in the dimensions of this dataset'')), h)
      else if new \<in> set (all_dims h ds) \<or> new \<in> set (map fst (variables ds)) then
        (Inl (ValueError (''Cannot rename '' @ old @ '' to '' @ new @ '' because '' @ new @ '' already exists'')), h)
      else
        (case alloc (map (\<lambda>(n, v). (n, v\<lparr>dims := map (\<lambda>d. if d = old then new else d) (dims v)\<rparr>))
                         (contents h ds))
                    (coord_names ds) h of
           (d, h') \<Rightarrow> (Inr d, h')))"

fun is_cell :: "ndarray \<Rightarrow> bool" where
  "is_cell (Cell c) = True"
| "is_cell (Axis xs) = False"

text \<open>
  \<open>ds.assign_coords({name: (dim, values, attrs)})\<close>: the values are a list; elements
  that are arrays themselves do not fit the single dimension.
\<close>

definition assign_coords ::
  "dataset \<Rightarrow> string \<Rightarrow> string \<Rightarrow> ndarray list \<Rightarrow> (string \<times> string) list \<Rightarrow> heap
     \<Rightarrow> (error + dataset) \<times> heap" where
  "assign_coords ds name dm vals ats h =
     (if list_all is_cell vals then
        (case alloc (AList.update name \<lparr>dims = [dm], data = Axis vals, attrs = ats\<rparr> (contents h ds))
                    (if name \<in> set (coord_names ds) then coord_names ds else coord_names ds @ [name])
                    h of
           (d, h') \<Rightarrow> (Inr d, h'))
      else (Inl (ValueError ''dimensions of the values do not match''), h))"

text \<open>\<open>v.isel(d=i)\<close> for an index \<open>i\<close>: the axis \<open>d\<close> is dropped.\<close>

fun nd_isel_index :: "string \<Rightarrow> nat \<Rightarrow> string list \<Rightarrow> ndarray \<Rightarrow> ndarray option" where
  "nd_isel_index d i [] a = Some a"
| "nd_isel_index d i (x # xs) (Cell c) = Some (Cell c)"
| "nd_isel_index d i (x # xs) (Axis rows) =
     (if x = d then (if i < length rows then Some (rows ! i) else None)
      else map_option Axis (those (map (nd_isel_index d i xs) rows)))"

definition isel_index :: "string \<Rightarrow> nat \<Rightarrow> variable \<Rightarrow> error + ndarray" where
  "isel_index d i v =
     (if d \<notin> set (dims v) then Inl (ValueError (''Dimensions '' @ d @ '' do not exist''))
      else (case nd_isel_index d i (dims v) (data v) of
              None \<Rightarrow> Inl IndexError
            | Some a \<Rightarrow> Inr a))"

text \<open>
  Python's \<open>xs[lo:hi]\<close>: a negative bound counts from the end, and bounds are clipped.
\<close>

definition slice_index :: "int \<Rightarrow> nat \<Rightarrow> nat" where
  "slice_index i n = (if i < 0 then nat (max (i + int n) 0) else min (nat i) n)"

definition py_slice :: "int \<Rightarrow> int \<Rightarrow> 'a list \<Rightarrow> 'a list" where
  "py_slice lo hi xs =
     (let s = slice_index lo (length xs); e = slice_index hi (length xs)
      in take (e - s) (drop s xs))"

fun nd_isel_slice :: "string \<Rightarrow> int \<Rightarrow> int \<Rightarrow> string list \<Rightarrow> ndarray \<Rightarrow> ndarray" where
  "nd_isel_slice d lo hi [] a = a"
| "nd_isel_slice d lo hi (x # xs) (Cell c) = Cell c"
| "nd_isel_slice d lo hi (x # xs) (Axis rows) =
     (if x = d then Axis (py_slice lo hi rows)
      else Axis (map (nd_isel_slice d lo hi xs) rows))"

text \<open>\<open>ds.isel(d=slice(lo, hi))\<close>: every variable with the dimension is sliced.\<close>

definition isel_slice :: "dataset \<Rightarrow> string \<Rightarrow> int \<Rightarrow> int \<Rightarrow> heap \<Rightarrow> (error + dataset) \<times> heap" where
  "isel_slice ds d lo hi h =
     (if d \<notin> set (all_dims h ds) then
        (Inl (ValueError (''Dimensions '' @ d @ '' do not exist'')), h)
      else
        (case alloc (map (\<lambda>(n, v). (n, v\<lparr>data := nd_isel_slice d lo hi (dims v) (data v)\<rparr>))
                         (contents h ds))
                    (coord_names ds) h of
           (d', h') \<Rightarrow> (Inr d', h')))"

text \<open>
  \<open>ds[names]\<close>: the listed variables, in the order listed, and every coordinate of the
  dataset whose dimensions are among those of the listed variables. The first name that
  the dataset does not hold raises \<open>KeyError\<close>.
\<close>

fun lookup_all :: "(string \<times> variable) list \<Rightarrow> string list \<Rightarrow> error + (string \<times> variable) list" where
  "lookup_all c [] = Inr []"
| "lookup_all c (n # ns) =
     (case map_of c n of
        None \<Rightarrow> Inl (KeyError n)
      | Some v \<Rightarrow> (case lookup_all c ns of Inl e \<Rightarrow> Inl e | Inr r \<Rightarrow> Inr ((n, v) # r)))"

definition insert_all :: "(string \<times> variable) list \<Rightarrow> (string \<times> variable) list \<Rightarrow> (string \<times> variable) list" where
  "insert_all xs acc = fold (\<lambda>(n, v) acc. AList.update n v acc) xs acc"

definition selection ::
  "(string \<times> variable) list \<Rightarrow> string list \<Rightarrow> string list
     \<Rightarrow> error + ((string \<times> variable) list \<times> string list)" where
  "selection c cn names =
     (case lookup_all c names of
        Inl e \<Rightarrow> Inl e
      | Inr listed \<Rightarrow>
          (let needed = concat (map (\<lambda>(n, v). dims v) listed);
               kept = filter (\<lambda>(n, v). n \<in> set cn \<and> set (dims v) \<subseteq> set needed) c
           in Inr (insert_all kept (insert_all listed []), map fst kept)))"

definition select :: "dataset \<Rightarrow> string list \<Rightarrow> heap \<Rightarrow> (error + dataset) \<times> heap" where
  "select ds names h =
     (case selection (contents h ds) (coord_names ds) names of
        Inl e \<Rightarrow> (Inl e, h)
      | Inr (vs, cn) \<Rightarrow> (case alloc vs cn h of (d, h') \<Rightarrow> (Inr d, h')))"

section \<open>fix\_cam\_time\<close>

fun add_timedelta_days :: "nat \<Rightarrow> cell \<Rightarrow> cell option" where
  "add_timedelta_days n (Stamp (Datetime64 y m d ns)) =
     Some (Stamp (case add_days n (y, m, d) of (y', m', d') \<Rightarrow> Datetime64 y' m' d' ns))"
| "add_timedelta_days n (Stamp (DatetimeNoLeap y m d ns)) = None"
| "add_timedelta_days n (Num x) = None"

fun nd_add_days :: "nat \<Rightarrow> ndarray \<Rightarrow> ndarray option" where
  "nd_add_days n (Cell c) = map_option Cell (add_timedelta_days n c)"
| "nd_add_days n (Axis xs) = map_option Axis (those (map (nd_add_days n) xs))"

fun datetime_like :: "ndarray \<Rightarrow> bool" where
  "datetime_like (Cell (Stamp t)) = True"
| "datetime_like (Cell (Num x)) = False"
| "datetime_like (Axis xs) = list_all datetime_like xs"

text \<open>Lines 34 to 37: the deep copy, with the CLM names turned into the CAM names.\<close>

definition compatible_names :: "dataset \<Rightarrow> heap \<Rightarrow> (error + dataset) \<times> heap" where
  "compatible_names ds h =
     (case copy_deep ds h of
        (c, h1) \<Rightarrow>
          if ''time_bounds'' \<in> set (data_vars c) then
            (case rename_vars c ''time_bounds'' ''time_bnds'' h1 of
               (Inl e, h2) \<Rightarrow> (Inl e, h2)
             | (Inr c1, h2) \<Rightarrow> rename_dims c1 ''hist_interval'' ''nbnd'' h2)
          else (Inr c, h1))"

text \<open>\<open>ds_.time_bnds.isel(nbnd=0)\<close>: the start boundary of every interval.\<close>

definition start_bounds :: "dataset \<Rightarrow> heap \<Rightarrow> error + ndarray" where
  "start_bounds c h =
     (case getattr c ''time_bnds'' of
        Inl e \<Rightarrow> Inl e
      | Inr a \<Rightarrow> isel_index ''nbnd'' 0 (h ! a))"

text \<open>
  The dates of the \<open>DatetimeNoLeap\<close> branch: \<open>.dt\<close> needs date-like values; \<open>zip\<close>
  iterates the first axis, and a year and month that are arrays do not make a date.
\<close>

fun noleap_date :: "ndarray \<Rightarrow> ndarray option" where
  "noleap_date (Cell (Stamp t)) = Some (Cell (Stamp (DatetimeNoLeap (dt_year t) (dt_month t) 15 0)))"
| "noleap_date (Cell (Num x)) = None"
| "noleap_date (Axis xs) = None"

definition noleap_dates :: "ndarray \<Rightarrow> error + ndarray list" where
  "noleap_dates b =
     (if \<not> datetime_like b then Inl DtAccessorError
      else (case b of
              Cell c \<Rightarrow> Inl TypeError
            | Axis rows \<Rightarrow> type_checked (those (map noleap_date rows))))"

text \<open>The dates of the \<open>datetime64\<close> branch: \<open>list(values + np.timedelta64(14, 'D'))\<close>.\<close>

definition datetime64_dates :: "ndarray \<Rightarrow> error + ndarray list" where
  "datetime64_dates b =
     (case nd_add_days 14 b of
        None \<Rightarrow> Inl TypeError
      | Some (Cell c) \<Rightarrow> Inl TypeError
      | Some (Axis rows) \<Rightarrow> Inr rows)"

definition time_type_message :: string where
  "time_type_message =
     ''time type not supported. Choose '' @ quote @ ''DatetimeNoLeap'' @ quote @ '' or '' @ quote
       @ ''datetime64'' @ quote"

definition fix_cam_time :: "dataset \<Rightarrow> string \<Rightarrow> heap \<Rightarrow> (error + dataset) \<times> heap" where
  "fix_cam_time ds timetype h =
     (case compatible_names ds h of
        (Inl e, h1) \<Rightarrow> (Inl e, h1)
      | (Inr c, h1) \<Rightarrow>
          (case (if timetype = ''DatetimeNoLeap'' then and_then (start_bounds c h1) noleap_dates
                 else if timetype = ''datetime64'' then and_then (start_bounds c h1) datetime64_dates
                 else Inl (ValueError time_type_message)) of
             Inl e \<Rightarrow> (Inl e, h1)
           | Inr dates \<Rightarrow>
               (case getattr ds ''time'' of
                  Inl e \<Rightarrow> (Inl e, h1)
                | Inr a \<Rightarrow> assign_coords ds ''time'' ''time'' dates (attrs (h1 ! a)) h1)))"

section \<open>Example datasets\<close>




definition example_heap :: heap where
  "example_heap =
     [\<lparr>dims = [''time''], data = Axis [Cell (Num 2), Cell (Num 3)], attrs = [(''units'', ''kg/kg'')]\<rparr>,
      \<lparr>dims = [''time''], data = Axis [Cell (Num 5), Cell (Num 6)], attrs = [(''units'', ''W/m^2'')]\<rparr>,
      \<lparr>dims = [''time''], data = Axis [Cell (Num 1), Cell (Num 4)], attrs = [(''units'', ''K'')]\<rparr>,
      \<lparr>dims = [''time''],
       data = Axis [Cell (Stamp (Datetime64 2008 1 15 0)), Cell (Stamp (Datetime64 2008 2 15 0))],
       attrs = [(''long_name'', ''time'')]\<rparr>]"

definition example_dataset :: dataset where
  "example_dataset =
     \<lparr>variables = [(''SOA_A1'', 0), (''FLNT'', 1), (''T'', 2), (''time'', 3)],
      coord_names = [''time'']\<rparr>"

section \<open>Selection of the land variables by case name\<close>

lemma str_find_nonneg_iff: "0 \<le> str_find s sub \<longleftrightarrow> sublist sub s"
proof (induction s)
  case Nil
  then show ?case by simp
next
  case (Cons c cs)
  show ?case
  proof (cases "prefix sub (c # cs)")
    case True
    then show ?thesis by (auto simp: sublist_Cons_right)
  next
    case False
    then show ?thesis using Cons.IH
      by (auto simp: sublist_Cons_right Let_def)
  qed
qed

lemma str_find_ge_minus1: "- 1 \<le> str_find s sub"
  by (induction s) (auto simp: Let_def)

lemma str_find_pos_iff: "0 < str_find s sub \<longleftrightarrow> sublist sub s \<and> \<not> prefix sub s"
proof (cases s)
  case Nil
  then show ?thesis by auto
next
  case (Cons c cs)
  show ?thesis
  proof (cases "prefix sub (c # cs)")
    case True
    then show ?thesis using Cons by simp
  next
    case False
    have "0 < str_find (c # cs) sub \<longleftrightarrow> 0 \<le> str_find cs sub"
      using False by (auto simp: Let_def)
    also have "\<dots> \<longleftrightarrow> sublist sub cs" by (rule str_find_nonneg_iff)
    also have "\<dots> \<longleftrightarrow> sublist sub (c # cs) \<and> \<not> prefix sub (c # cs)"
      using False by (auto simp: sublist_Cons_right)
    finally show ?thesis using Cons by simp
  qed
qed

text \<open>
  Where the case name has no occurrence of \<open>OFF\<close>, the biogenic-emission names are
  selected; where \<open>OFF\<close> occurs and the name does not start with it, they are not.
\<close>

lemma create_dataset_variables_without_OFF:
  assumes "\<not> sublist ''OFF'' casename"
  shows "create_dataset_variables casename ''lnd'' pv =
           Inr (lnd_always_include @
                [''MEG_isoprene'', ''MEG_limonene'', ''MEG_myrcene'', ''MEG_ocimene_t_b'',
                 ''MEG_pinene_a'', ''MEG_pinene_b'', ''MEG_sabinene'', ''PCT_NAT_PFT'', ''TLAI'',
                 ''GPP'', ''NPP'', ''NEE'', ''NEP'', ''STORVEGN'', ''TOTPFTN'', ''TOTVEGN'',
                 ''TOTCOLC'', ''TOTECOSYSC'', ''TOTPFTC'', ''TOTVEGC'', ''STORVEGC'',
                 ''QFLX_EVAP_TOT'', ''FCEV'', ''FCTR'', ''FGEV'', ''QSOIL'', ''QVEGE'', ''QVEGT''])"
proof -
  have "\<not> 0 < str_find casename ''OFF''"
    using assms str_find_pos_iff by blast
  then show ?thesis
    by (simp add: create_dataset_variables_def variables_by_component_def)
qed

lemma create_dataset_variables_inner_OFF:
  assumes "sublist ''OFF'' casename" and "\<not> prefix ''OFF'' casename"
  shows "create_dataset_variables casename ''lnd'' pv =
           Inr (lnd_always_include @
                [''PCT_NAT_PFT'', ''TLAI'',
                 ''GPP'', ''NPP'', ''NEE'', ''NEP'', ''STORVEGN'', ''TOTPFTN'', ''TOTVEGN'',
                 ''TOTCOLC'', ''TOTECOSYSC'', ''TOTPFTC'', ''TOTVEGC'', ''STORVEGC'',
                 ''QFLX_EVAP_TOT'', ''FCEV'', ''FCTR'', ''FGEV'', ''QSOIL'', ''QVEGE'', ''QVEGT''])"
proof -
  have "0 < str_find casename ''OFF''"
    using assms str_find_pos_iff by blast
  then show ?thesis
    by (simp add: create_dataset_variables_def variables_by_component_def)
qed

text \<open>
  Claim C2. A case identifier containing \<open>OFF\<close> is to exclude the biogenic-emission
  (\<open>MEG_*\<close>) names from the land selection. The test \<open>find('OFF') > 0\<close> misses an
  occurrence at index 0: for the case name \<open>OFF-CTRL\<close>, which contains \<open>OFF\<close>, the
  selection of \<open>create_dataset\<close> still holds all seven \<open>MEG_*\<close> names.
\<close>

theorem create_dataset_variables_leading_OFF:
  "sublist ''OFF'' ''OFF-CTRL'' \<and>
   create_dataset_variables ''OFF-CTRL'' ''lnd'' False =
     Inr (lnd_always_include @
          [''MEG_isoprene'', ''MEG_limonene'', ''MEG_myrcene'', ''MEG_ocimene_t_b'',
           ''MEG_pinene_a'', ''MEG_pinene_b'', ''MEG_sabinene'', ''PCT_NAT_PFT'', ''TLAI'',
           ''GPP'', ''NPP'', ''NEE'', ''NEP'', ''STORVEGN'', ''TOTPFTN'', ''TOTVEGN'',
           ''TOTCOLC'', ''TOTECOSYSC'', ''TOTPFTC'', ''TOTVEGC'', ''STORVEGC'',
           ''QFLX_EVAP_TOT'', ''FCEV'', ''FCTR'', ''FGEV'', ''QSOIL'', ''QVEGE'', ''QVEGT''])"
proof -
  have "prefix ''OFF'' ''OFF-CTRL''" by simp
  then have a: "sublist ''OFF'' ''OFF-CTRL''" by (rule prefix_imp_sublist)
  have b: "str_find ''OFF-CTRL'' ''OFF'' = 0" by simp
  show ?thesis using a
    by (simp add: create_dataset_variables_def variables_by_component_def b)
qed

section \<open>Heap and dataset lemmas\<close>

lemma alloc_variables:
  "variables (fst (alloc vs cn h)) = zip (map fst vs) [length h ..< length h + length vs]"
  by (simp add: alloc_def)

lemma alloc_names: "map fst (variables (fst (alloc vs cn h))) = map fst vs"
  by (simp add: alloc_def)

lemma alloc_addrs: "map snd (variables (fst (alloc vs cn h))) = [length h ..< length h + length vs]"
  by (simp add: alloc_def)

lemma alloc_heap: "snd (alloc vs cn h) = h @ map snd vs"
  by (simp add: alloc_def)

lemma alloc_coord_names: "coord_names (fst (alloc vs cn h)) = cn"
  by (simp add: alloc_def)

lemma contents_alloc: "contents (snd (alloc vs cn h)) (fst (alloc vs cn h)) = vs"
proof -
  have "map (\<lambda>(n, a). (n, (h @ map snd vs) ! a)) (zip (map fst vs) [length h ..< length h + length vs]) = vs"
    by (rule nth_equalityI) (auto simp: nth_append prod_eq_iff)
  then show ?thesis by (simp add: contents_def alloc_def)
qed

lemma contents_append:
  assumes "wf_dataset h ds"
  shows "contents (h @ xs) ds = contents h ds"
  using assms
  by (auto simp: contents_def wf_dataset_def list_all_iff nth_append)

lemma contents_names: "map fst (contents h ds) = map fst (variables ds)"
  by (simp add: contents_def comp_def case_prod_beta)

lemma addr_name_unique:
  assumes "distinct (map fst vs)" and "distinct (map snd vs)"
    and "(k, a) \<in> set vs" and "(n, b) \<in> set vs"
  shows "(b = a) = (n = k)"
proof
  assume "b = a"
  with assms(2,3,4) show "n = k"
    by (metis Pair_inject distinct_map inj_onD snd_conv)
next
  assume "n = k"
  with assms(1,3,4) show "b = a"
    by (metis eq_key_imp_eq_value)
qed

lemma for_each_update:
  assumes dn: "distinct (map fst vs)" and da: "distinct (map snd vs)"
    and "list_all (\<lambda>(n, a). a < length h) vs"
    and "set ks \<subseteq> fst ` set vs" and "distinct ks"
    and body: "\<And>n a h'. (n, a) \<in> set vs \<Longrightarrow> a < length h' \<Longrightarrow> P n (h' ! a) \<Longrightarrow>
                 body n h' = (Inr (), h'[a := G n (h' ! a)])"
    and "list_all (\<lambda>(n, a). n \<in> set ks \<longrightarrow> P n (h ! a)) vs"
  shows "\<exists>h'. for_each body ks h = (Inr (), h') \<and> length h' = length h \<and>
           list_all (\<lambda>(n, a). h' ! a = (if n \<in> set ks then G n (h ! a) else h ! a)) vs \<and>
           (\<forall>b. b \<notin> snd ` set vs \<longrightarrow> h' ! b = h ! b)"
  using assms(3,4,5,7)
proof (induction ks arbitrary: h)
  case Nil
  then show ?case by (simp add: list_all_iff)
next
  case (Cons k ks)
  from Cons.prems(2) obtain a where ka: "(k, a) \<in> set vs" by auto
  with Cons.prems(1) have a_lt: "a < length h" by (auto simp: list_all_iff)
  from ka Cons.prems(4) have "P k (h ! a)" by (auto simp: list_all_iff)
  with body [OF ka a_lt] have step: "body k h = (Inr (), h[a := G k (h ! a)])" by simp
  let ?h1 = "h[a := G k (h ! a)]"
  note uniq_a = addr_name_unique [OF dn da ka]
  have k_notin: "k \<notin> set ks" using Cons.prems(3) by simp
  have p1: "list_all (\<lambda>(n, a). a < length ?h1) vs" using Cons.prems(1) by simp
  have p4: "list_all (\<lambda>(n, a). n \<in> set ks \<longrightarrow> P n (?h1 ! a)) vs"
    unfolding list_all_iff
  proof (intro ballI, clarify)
    fix n b assume nb: "(n, b) \<in> set vs" and n: "n \<in> set ks"
    then have "n \<noteq> k" using k_notin by auto
    then have "b \<noteq> a" using uniq_a [OF nb] by simp
    moreover have "P n (h ! b)" using Cons.prems(4) nb n by (auto simp: list_all_iff)
    ultimately show "P n (?h1 ! b)" by simp
  qed
  have p2: "set ks \<subseteq> fst ` set vs" using Cons.prems(2) by simp
  have p3: "distinct ks" using Cons.prems(3) by simp
  from Cons.IH [OF p1 p2 p3 p4]
  obtain h' where h': "for_each body ks ?h1 = (Inr (), h')" "length h' = length ?h1"
     "list_all (\<lambda>(n, a). h' ! a = (if n \<in> set ks then G n (?h1 ! a) else ?h1 ! a)) vs"
     "\<forall>b. b \<notin> snd ` set vs \<longrightarrow> h' ! b = ?h1 ! b"
    by blast
  have r3: "list_all (\<lambda>(n, a). h' ! a = (if n \<in> set (k # ks) then G n (h ! a) else h ! a)) vs"
    unfolding list_all_iff
  proof (intro ballI, clarify)
    fix n b assume nb: "(n, b) \<in> set vs"
    from h'(3) nb have e: "h' ! b = (if n \<in> set ks then G n (?h1 ! b) else ?h1 ! b)"
      by (auto simp: list_all_iff)
    show "h' ! b = (if n \<in> set (k # ks) then G n (h ! b) else h ! b)"
    proof (cases "n = k")
      case True
      then have "b = a" using uniq_a [OF nb] by simp
      then show ?thesis using e True k_notin a_lt by simp
    next
      case False
      then have "b \<noteq> a" using uniq_a [OF nb] by simp
      then show ?thesis using e False by simp
    qed
  qed
  have r4: "\<forall>b. b \<notin> snd ` set vs \<longrightarrow> h' ! b = h ! b"
  proof (intro allI impI)
    fix b assume b: "b \<notin> snd ` set vs"
    have "a \<in> snd ` set vs" using ka by force
    then have "b \<noteq> a" using b by auto
    then show "h' ! b = h ! b" using h'(4) b by simp
  qed
  have "for_each body (k # ks) h = (Inr (), h')" using step h'(1) by simp
  then show ?case using h'(2) r3 r4 by auto
qed

section \<open>Elementwise scaling\<close>







lemma getitem_member:
  assumes "distinct (map fst (variables ds))" and "(n, a) \<in> set (variables ds)"
  shows "getitem ds n = Inr a"
  using assms by (simp add: getitem_def)

lemma assign_attr_at:
  assumes "getitem ds n = Inr a"
  shows "assign_attr ds n k v h = (Inr (), h[a := (h ! a)\<lparr>attrs := AList.update k v (attrs (h ! a))\<rparr>])"
  using assms by (simp add: assign_attr_def)

lemma assign_values_at:
  assumes "getitem ds n = Inr a" and "f (data (h ! a)) = Inr d"
  shows "assign_values ds n f h = (Inr (), h[a := (h ! a)\<lparr>data := d\<rparr>])"
  using assms by (simp add: assign_values_def)


section \<open>What one pass of the loop of fix\_units does\<close>










section \<open>Deep copy, then mutation of the copy\<close>

lemma copy_deep_names: "map fst (variables (fst (copy_deep ds h))) = map fst (variables ds)"
  by (simp add: copy_deep_def alloc_names contents_names)

lemma copy_deep_coord_names: "coord_names (fst (copy_deep ds h)) = coord_names ds"
  by (simp add: copy_deep_def alloc_coord_names)

lemma copy_deep_data_vars: "data_vars (fst (copy_deep ds h)) = data_vars ds"
  by (simp add: data_vars_def copy_deep_names copy_deep_coord_names)

lemma copy_deep_addrs:
  "map snd (variables (fst (copy_deep ds h))) = [length h ..< length h + length (variables ds)]"
  by (simp add: copy_deep_def alloc_addrs contents_def)

lemma copy_deep_heap: "snd (copy_deep ds h) = h @ map snd (contents h ds)"
  by (simp add: copy_deep_def alloc_heap)

lemma copy_deep_contents: "contents (snd (copy_deep ds h)) (fst (copy_deep ds h)) = contents h ds"
  by (simp add: copy_deep_def contents_alloc)

lemma copy_deep_wf:
  assumes "wf_dataset h ds"
  shows "wf_dataset (snd (copy_deep ds h)) (fst (copy_deep ds h))"
proof -
  have "\<forall>a \<in> set (map snd (variables (fst (copy_deep ds h)))). a < length (snd (copy_deep ds h))"
    unfolding copy_deep_addrs copy_deep_heap by (simp add: contents_def)
  then have "list_all (\<lambda>(n, a). a < length (snd (copy_deep ds h))) (variables (fst (copy_deep ds h)))"
    by (auto simp: list_all_iff)
  then show ?thesis using assms by (simp add: wf_dataset_def copy_deep_names)
qed

lemma contents_eqI:
  assumes "list_all (\<lambda>(n, a). h' ! a = F n (h ! a)) (variables ds)"
  shows "contents h' ds = map (\<lambda>(n, v). (n, F n v)) (contents h ds)"
  using assms by (auto simp: contents_def list_all_iff)

lemma mutate_copy:
  assumes wf: "wf_dataset h ds"
    and body: "\<And>n a h'. getitem (fst (copy_deep ds h)) n = Inr a \<Longrightarrow> a < length h' \<Longrightarrow> P n (h' ! a) \<Longrightarrow>
                 body n h' = (Inr (), h'[a := G n (h' ! a)])"
    and pre: "list_all (\<lambda>(n, v). n \<in> set (data_vars ds) \<longrightarrow> P n v) (contents h ds)"
  shows "\<exists>h'. for_each body (data_vars (fst (copy_deep ds h))) (snd (copy_deep ds h)) = (Inr (), h') \<and>
           contents h' (fst (copy_deep ds h)) =
             map (\<lambda>(n, v). (n, if n \<in> set (data_vars ds) then G n v else v)) (contents h ds) \<and>
           contents h' ds = contents h ds"
proof -
  let ?d = "fst (copy_deep ds h)" and ?h1 = "snd (copy_deep ds h)"
  let ?vs = "variables ?d"
  have wf1: "wf_dataset ?h1 ?d" using wf by (rule copy_deep_wf)
  have dn: "distinct (map fst ?vs)" using wf1 by (simp add: wf_dataset_def)
  have da: "distinct (map snd ?vs)" unfolding copy_deep_addrs by simp
  have lt: "list_all (\<lambda>(n, a). a < length ?h1) ?vs" using wf1 by (simp add: wf_dataset_def)
  have ks: "set (data_vars ?d) \<subseteq> fst ` set ?vs" by (auto simp: data_vars_def)
  have dk: "distinct (data_vars ?d)" using dn by (simp add: data_vars_def)
  have body': "\<And>n a h'. (n, a) \<in> set ?vs \<Longrightarrow> a < length h' \<Longrightarrow> P n (h' ! a) \<Longrightarrow>
                 body n h' = (Inr (), h'[a := G n (h' ! a)])"
    using body getitem_member [OF dn] by blast
  have "list_all (\<lambda>(n, v). n \<in> set (data_vars ds) \<longrightarrow> P n v) (contents ?h1 ?d)"
    using pre by (simp add: copy_deep_contents)
  then have pre': "list_all (\<lambda>(n, a). n \<in> set (data_vars ?d) \<longrightarrow> P n (?h1 ! a)) ?vs"
    by (auto simp: contents_def list_all_iff copy_deep_data_vars)
  from for_each_update [where body = body and P = P and G = G, OF dn da lt ks dk body' pre']
  obtain h' where h': "for_each body (data_vars ?d) ?h1 = (Inr (), h')" "length h' = length ?h1"
     "list_all (\<lambda>(n, a). h' ! a = (if n \<in> set (data_vars ?d) then G n (?h1 ! a) else ?h1 ! a)) ?vs"
     "\<forall>b. b \<notin> snd ` set ?vs \<longrightarrow> h' ! b = ?h1 ! b"
    by blast
  have "contents h' ?d = map (\<lambda>(n, v). (n, if n \<in> set (data_vars ?d) then G n v else v)) (contents ?h1 ?d)"
    by (rule contents_eqI) (rule h'(3))
  then have c1: "contents h' ?d =
      map (\<lambda>(n, v). (n, if n \<in> set (data_vars ds) then G n v else v)) (contents h ds)"
    by (simp add: copy_deep_contents copy_deep_data_vars)
  have old: "\<And>n a. (n, a) \<in> set (variables ds) \<Longrightarrow> h' ! a = h ! a"
  proof -
    fix n a assume "(n, a) \<in> set (variables ds)"
    then have a: "a < length h" using wf by (auto simp: wf_dataset_def list_all_iff)
    then have "a \<notin> set (map snd ?vs)" unfolding copy_deep_addrs by simp
    then have "h' ! a = ?h1 ! a" using h'(4) by simp
    also have "\<dots> = h ! a" using a by (simp add: copy_deep_heap nth_append)
    finally show "h' ! a = h ! a" .
  qed
  have c2: "contents h' ds = contents h ds"
    using old by (auto simp: contents_def)
  show ?thesis using h'(1) c1 c2 by blast
qed


lemma example_wf: "wf_dataset example_heap example_dataset"
  by (simp add: wf_dataset_def example_heap_def example_dataset_def)

lemma example_data_vars: "data_vars example_dataset = [''SOA_A1'', ''FLNT'', ''T'']"
  by (simp add: data_vars_def example_dataset_def)

lemma example_contents:
  "contents example_heap example_dataset =
     [(''SOA_A1'', \<lparr>dims = [''time''], data = Axis [Cell (Num 2), Cell (Num 3)], attrs = [(''units'', ''kg/kg'')]\<rparr>),
      (''FLNT'', \<lparr>dims = [''time''], data = Axis [Cell (Num 5), Cell (Num 6)], attrs = [(''units'', ''W/m^2'')]\<rparr>),
      (''T'', \<lparr>dims = [''time''], data = Axis [Cell (Num 1), Cell (Num 4)], attrs = [(''units'', ''K'')]\<rparr>),
      (''time'', \<lparr>dims = [''time''],
         data = Axis [Cell (Stamp (Datetime64 2008 1 15 0)), Cell (Stamp (Datetime64 2008 2 15 0))],
         attrs = [(''long_name'', ''time'')]\<rparr>)]"
  by (simp add: contents_def example_heap_def example_dataset_def)


section \<open>fix\_names changes attributes only\<close>

lemma long_names:
  "n \<in> fst ` set long_name_table \<longleftrightarrow>
     n = ''SOA_A1'' \<or> n = ''SOA_NA'' \<or> n = ''cb_SOA_A1'' \<or> n = ''cb_SOA_NA'' \<or>
     n = ''cb_SOA_A1_OCW'' \<or> n = ''cb_SOA_NA_OCW''"
  unfolding long_name_table_def by simp

lemma fix_names_body_listed:
  assumes g: "getitem ds n = Inr a" and a: "a < length h"
    and n: "n \<in> fst ` set long_name_table \<or> n = ''TGCLDLWP'' \<or> n = ''QFLX_EVAP_TOT''"
  shows "fix_names_body ds n h = (Inr (), h[a := annotated_names n (h ! a)])"
  using g a n unfolding long_names
  apply (elim disjE)
  apply (simp_all add: fix_names_body_def annotated_names_def long_name_table_def
      assign_attr_def seq_def rename_discarded_def)
  done

lemma fix_names_body_other:
  assumes a: "a < length h"
    and n1: "n \<notin> fst ` set long_name_table" and n2: "n \<noteq> ''TGCLDLWP''" "n \<noteq> ''QFLX_EVAP_TOT''"
  shows "fix_names_body ds n h = (Inr (), h[a := annotated_names n (h ! a)])"
proof -
  have "map_of long_name_table n = None" using n1 by (simp add: map_of_eq_None_iff)
  then have "annotated_names n (h ! a) = h ! a" using n2 by (simp add: annotated_names_def)
  moreover have "fix_names_body ds n h = (Inr (), h)"
    using n1 n2 unfolding long_names
    by (simp add: fix_names_body_def skip_def)
  ultimately show ?thesis by simp
qed

lemma fix_names_body_spec:
  assumes g: "getitem ds n = Inr a" and a: "a < length h" and "True"
  shows "fix_names_body ds n h = (Inr (), h[a := annotated_names n (h ! a)])"
  using fix_names_body_listed [OF g a] fix_names_body_other [OF a]
  by blast

lemma annotated_names_dims_data:
  "dims (annotated_names n v) = dims v \<and> data (annotated_names n v) = data v"
  by (simp add: annotated_names_def split: option.splits)

lemma map_of_update_other: "k \<noteq> k' \<Longrightarrow> map_of (AList.update k' x al) k = map_of al k"
  by (simp add: update_conv')

lemma annotated_names_other_attrs:
  assumes "k \<noteq> ''long_name''" and "k \<noteq> ''CLM5_name''"
  shows "map_of (attrs (annotated_names n v)) k = map_of (attrs v) k"
  using assms by (simp add: annotated_names_def map_of_update_other split: option.splits)

text \<open>
  Claim C10. \<open>fix_names\<close> returns a dataset with the names of its input, in the same
  order: the two \<open>rename\<close> calls leave no trace. Each data variable differs from the
  input's at most in its \<open>long_name\<close> attribute (the six listed names) or its
  \<open>CLM5_name\<close> attribute (\<open>TGCLDLWP\<close>, \<open>QFLX_EVAP_TOT\<close>); dimensions, data and every
  other attribute are the input's. The objects of the input dataset are unchanged.
\<close>

theorem fix_names_keeps_names:
  assumes wf: "wf_dataset h ds"
  shows "\<exists>ds' h'. fix_names ds h = (Inr ds', h') \<and>
           map fst (variables ds') = map fst (variables ds) \<and>
           coord_names ds' = coord_names ds \<and>
           contents h' ds' =
             map (\<lambda>(n, v). (n, if n \<in> set (data_vars ds) then annotated_names n v else v))
                 (contents h ds) \<and>
           map (\<lambda>(n, v). (n, dims v, data v)) (contents h' ds') =
             map (\<lambda>(n, v). (n, dims v, data v)) (contents h ds) \<and>
           (\<forall>k. k \<noteq> ''long_name'' \<and> k \<noteq> ''CLM5_name'' \<longrightarrow>
              map (\<lambda>(n, v). map_of (attrs v) k) (contents h' ds') =
              map (\<lambda>(n, v). map_of (attrs v) k) (contents h ds)) \<and>
           contents h' ds = contents h ds"
proof -
  have pre: "list_all (\<lambda>(n, v). n \<in> set (data_vars ds) \<longrightarrow> True) (contents h ds)"
    by (simp add: list_all_iff)
  from mutate_copy [where body = "fix_names_body (fst (copy_deep ds h))"
      and P = "\<lambda>n v. True" and G = annotated_names, OF wf fix_names_body_spec pre]
  obtain h' where h': "for_each (fix_names_body (fst (copy_deep ds h))) (data_vars (fst (copy_deep ds h)))
        (snd (copy_deep ds h)) = (Inr (), h')"
     "contents h' (fst (copy_deep ds h)) =
             map (\<lambda>(n, v). (n, if n \<in> set (data_vars ds) then annotated_names n v else v)) (contents h ds)"
     "contents h' ds = contents h ds"
    by blast
  have r: "fix_names ds h = (Inr (fst (copy_deep ds h)), h')"
    using h'(1) by (simp add: fix_names_def case_prod_beta)
  have d: "map (\<lambda>(n, v). (n, dims v, data v)) (contents h' (fst (copy_deep ds h))) =
             map (\<lambda>(n, v). (n, dims v, data v)) (contents h ds)"
    unfolding h'(2) by (auto simp: annotated_names_dims_data)
  have a: "\<forall>k. k \<noteq> ''long_name'' \<and> k \<noteq> ''CLM5_name'' \<longrightarrow>
              map (\<lambda>(n, v). map_of (attrs v) k) (contents h' (fst (copy_deep ds h))) =
              map (\<lambda>(n, v). map_of (attrs v) k) (contents h ds)"
    unfolding h'(2) by (auto simp: annotated_names_other_attrs)
  show ?thesis
    by (intro exI conjI) (rule r copy_deep_names copy_deep_coord_names h'(2) d a h'(3))+
qed

theorem fix_names_keeps_names_witness:
  "wf_dataset example_heap example_dataset \<and>
   (\<exists>ds' h'. fix_names example_dataset example_heap = (Inr ds', h') \<and>
      map fst (variables ds') = [''SOA_A1'', ''FLNT'', ''T'', ''time''] \<and>
      contents h' ds' =
        [(''SOA_A1'', \<lparr>dims = [''time''], data = Axis [Cell (Num 2), Cell (Num 3)],
            attrs = [(''units'', ''kg/kg''),
                     (''long_name'', ''SOA_A1 concentration - SOA condensate on existing particles from SOAGSV (gas)'')]\<rparr>),
         (''FLNT'', \<lparr>dims = [''time''], data = Axis [Cell (Num 5), Cell (Num 6)], attrs = [(''units'', ''W/m^2'')]\<rparr>),
         (''T'', \<lparr>dims = [''time''], data = Axis [Cell (Num 1), Cell (Num 4)], attrs = [(''units'', ''K'')]\<rparr>),
         (''time'', \<lparr>dims = [''time''],
            data = Axis [Cell (Stamp (Datetime64 2008 1 15 0)), Cell (Stamp (Datetime64 2008 2 15 0))],
            attrs = [(''long_name'', ''time'')]\<rparr>)] \<and>
      contents h' example_dataset = contents example_heap example_dataset)"
proof -
  from fix_names_keeps_names [OF example_wf]
  obtain ds' h' where r: "fix_names example_dataset example_heap = (Inr ds', h')"
    "map fst (variables ds') = map fst (variables example_dataset)"
    "contents h' ds' =
       map (\<lambda>(n, v). (n, if n \<in> set (data_vars example_dataset) then annotated_names n v else v))
         (contents example_heap example_dataset)"
    "contents h' example_dataset = contents example_heap example_dataset"
    by blast
  have n: "map fst (variables ds') = [''SOA_A1'', ''FLNT'', ''T'', ''time'']"
    unfolding r(2) by (simp add: example_dataset_def)
  have "contents h' ds' =
        [(''SOA_A1'', \<lparr>dims = [''time''], data = Axis [Cell (Num 2), Cell (Num 3)],
            attrs = [(''units'', ''kg/kg''),
                     (''long_name'', ''SOA_A1 concentration - SOA condensate on existing particles from SOAGSV (gas)'')]\<rparr>),
         (''FLNT'', \<lparr>dims = [''time''], data = Axis [Cell (Num 5), Cell (Num 6)], attrs = [(''units'', ''W/m^2'')]\<rparr>),
         (''T'', \<lparr>dims = [''time''], data = Axis [Cell (Num 1), Cell (Num 4)], attrs = [(''units'', ''K'')]\<rparr>),
         (''time'', \<lparr>dims = [''time''],
            data = Axis [Cell (Stamp (Datetime64 2008 1 15 0)), Cell (Stamp (Datetime64 2008 2 15 0))],
            attrs = [(''long_name'', ''time'')]\<rparr>)]"
    unfolding r(3) example_contents example_data_vars
    by (simp add: annotated_names_def long_name_table_def)
  then show ?thesis
    by (intro conjI exI) (rule example_wf r(1) n r(4) | assumption)+
qed

section \<open>The guard of the Ghan decomposition\<close>

lemma py_list_not_in_strings: "\<not> py_in (PyList xs) (map PyStr ys)"
  by (auto simp: py_in_def)

lemma ghan_returns_copy:
  "aerosol_cloud_forcing_scomposition_Ghan ds h = (Inr (fst (copy_deep ds h)), snd (copy_deep ds h))"
  by (simp add: aerosol_cloud_forcing_scomposition_Ghan_def py_list_not_in_strings case_prod_beta)

lemma copy_deep_frame:
  assumes "wf_dataset h ds"
  shows "contents (snd (copy_deep ds h)) ds = contents h ds"
  unfolding copy_deep_heap using assms by (rule contents_append)

text \<open>
  Claim C3. Where one of the six prerequisite names is not a data variable of the
  input, \<open>aerosol_cloud_forcing_scomposition_Ghan\<close> returns a dataset with the names,
  coordinates, values and attributes of its input and no further variable, and leaves
  the input's objects as they were.
\<close>

theorem ghan_missing_prerequisite:
  assumes "wf_dataset h ds"
    and "\<not> set [''FLNT'', ''FSNT'', ''FLNT_DRF'', ''FLNTCDRF'', ''FSNTCDRF'', ''FSNT_DRF'']
            \<subseteq> set (data_vars ds)"
  shows "\<exists>ds' h'. aerosol_cloud_forcing_scomposition_Ghan ds h = (Inr ds', h') \<and>
           contents h' ds' = contents h ds \<and>
           coord_names ds' = coord_names ds \<and>
           contents h' ds = contents h ds"
  using ghan_returns_copy [of ds h] copy_deep_contents [of ds h] copy_deep_coord_names [of ds h]
    copy_deep_frame [OF assms(1)]
  by simp

theorem ghan_missing_prerequisite_witness:
  "wf_dataset example_heap example_dataset \<and>
   \<not> set [''FLNT'', ''FSNT'', ''FLNT_DRF'', ''FLNTCDRF'', ''FSNTCDRF'', ''FSNT_DRF'']
            \<subseteq> set (data_vars example_dataset) \<and>
   (\<exists>ds' h'. aerosol_cloud_forcing_scomposition_Ghan example_dataset example_heap = (Inr ds', h') \<and>
      map fst (contents h' ds') = [''SOA_A1'', ''FLNT'', ''T'', ''time''] \<and>
      contents h' ds' = contents example_heap example_dataset \<and>
      contents h' example_dataset = contents example_heap example_dataset)"
proof -
  have m: "\<not> set [''FLNT'', ''FSNT'', ''FLNT_DRF'', ''FLNTCDRF'', ''FSNTCDRF'', ''FSNT_DRF'']
            \<subseteq> set (data_vars example_dataset)"
    by (simp add: example_data_vars)
  from ghan_missing_prerequisite [OF example_wf m]
  obtain ds' h' where r:
    "aerosol_cloud_forcing_scomposition_Ghan example_dataset example_heap = (Inr ds', h')"
    "contents h' ds' = contents example_heap example_dataset"
    "contents h' example_dataset = contents example_heap example_dataset"
    by blast
  have "map fst (contents h' ds') = [''SOA_A1'', ''FLNT'', ''T'', ''time'']"
    unfolding r(2) by (simp add: example_contents)
  then show ?thesis
    by (intro conjI exI) (rule example_wf m r | assumption)+
qed


section \<open>Datasets as maps: the effect of assignments\<close>

























section \<open>The eight derivation steps\<close>



lemma units_field: "map_of (attrs (field dm sk x ((''units'', u) # A))) ''units'' = Some u"
  by (simp add: field_def)

























end
